theory Spec2Isabelle
  imports Main
begin

section \<open>Pricing tiers (pricing.py, class DomainPrice)\<close>

text \<open>
  The thresholds of \<^verbatim>\<open>config.pricing\<close>. The module \<^verbatim>\<open>config\<close> is imported by
  \<^verbatim>\<open>pricing.py\<close> and \<^verbatim>\<open>cli.py\<close>; its three integer thresholds are taken as a
  parameter of every function that reads them.
\<close>

record pricing_config =
  bundled_max_cents :: int
  recommended_max_cents :: int
  premium_flag_above_cents :: int

text \<open>
  The dataclass \<^verbatim>\<open>DomainPrice\<close>. Python's \<^verbatim>\<open>int\<close> is unbounded, so cents are
  \<^typ>\<open>int\<close>; \<^verbatim>\<open>Optional[int]\<close> is \<^typ>\<open>int option\<close>.
\<close>

record DomainPrice =
  domain :: string
  tld :: string
  price_cents :: int
  currency :: string
  is_premium :: bool
  is_bundled :: bool
  is_recommended :: bool
  annual_renewal_cents :: "int option"

text \<open>
  \<^verbatim>\<open>__post_init__\<close>: the three flags are overwritten by three comparisons of
  \<^verbatim>\<open>price_cents\<close> against the configured thresholds.
\<close>

definition post_init :: "pricing_config \<Rightarrow> DomainPrice \<Rightarrow> DomainPrice" where
  "post_init cfg p =
     p\<lparr>is_bundled := price_cents p \<le> bundled_max_cents cfg,
       is_recommended := price_cents p \<le> recommended_max_cents cfg,
       is_premium := price_cents p \<ge> premium_flag_above_cents cfg\<rparr>"

text \<open>
  The generated constructor followed by \<^verbatim>\<open>__post_init__\<close>, for the keyword
  arguments the source passes: \<^verbatim>\<open>domain\<close>, \<^verbatim>\<open>tld\<close>, \<^verbatim>\<open>price_cents\<close>,
  \<^verbatim>\<open>currency\<close> and \<^verbatim>\<open>annual_renewal_cents\<close>. The flags start at their default
  \<^verbatim>\<open>False\<close>.
\<close>

definition new_DomainPrice ::
  "pricing_config \<Rightarrow> string \<Rightarrow> string \<Rightarrow> int \<Rightarrow> string \<Rightarrow> int option \<Rightarrow> DomainPrice" where
  "new_DomainPrice cfg d t c cur ren =
     post_init cfg
       \<lparr>domain = d, tld = t, price_cents = c, currency = cur,
        is_premium = False, is_bundled = False, is_recommended = False,
        annual_renewal_cents = ren\<rparr>"

text \<open>The property \<^verbatim>\<open>category\<close>: an if/elif chain over the stored flags.\<close>

definition category :: "DomainPrice \<Rightarrow> string" where
  "category p =
     (if is_bundled p then ''bundled''
      else if is_recommended p then ''recommended''
      else if is_premium p then ''premium''
      else ''standard'')"


section \<open>Python values and exceptions (pricing.py, get_tld_pricing)\<close>

text \<open>
  The exceptions that the body of \<^verbatim>\<open>get_tld_pricing\<close> can raise. \<^verbatim>\<open>HTTPError\<close> is
  \<^verbatim>\<open>httpx.HTTPError\<close> (raised by \<^verbatim>\<open>client.get\<close> and by \<^verbatim>\<open>raise_for_status\<close>); the
  others are Python's built-in exceptions and the module's own \<^verbatim>\<open>PricingError\<close>. All
  of them derive from \<^verbatim>\<open>Exception\<close>.
\<close>

datatype exn = HTTPError | ValueError | AttributeError | TypeError | OverflowError | PricingError

text \<open>
  A decoded JSON value, as \<^verbatim>\<open>response.json()\<close> returns it. A \<^verbatim>\<open>dict\<close> is an
  association list of its items (keys distinct, as in a decoded dict). Floating point
  is not modelled: a Python \<^verbatim>\<open>float\<close> is an opaque value of type \<open>'f\<close>.
\<close>

datatype 'f json =
    JNull
  | JBool bool
  | JInt int
  | JFloat 'f
  | JStr string
  | JArr "'f json list"
  | JObj "(string \<times> 'f json) list"

text \<open>
  The operations of the Python runtime that the source uses and the model does not
  define: the truth value of a float, \<^verbatim>\<open>int(x * 100)\<close> for a float \<^verbatim>\<open>x\<close> (it
  raises on an infinity or a NaN), \<^verbatim>\<open>int(s * 100)\<close> for a string \<^verbatim>\<open>s\<close> (the
  string repeated a hundred times, then parsed), and \<^verbatim>\<open>str.lower\<close>, which
  lower-cases every cased letter of Unicode. They are parameters, so every theorem
  holds for the runtime's own operations.
\<close>

record 'f pyops =
  float_truthy :: "'f \<Rightarrow> bool"
  float_cents :: "'f \<Rightarrow> exn + int"
  str_cents :: "string \<Rightarrow> exn + int"
  str_lower :: "string \<Rightarrow> string"

text \<open>Python's truth value of a decoded JSON value (\<^verbatim>\<open>not data.get("success")\<close>).\<close>

definition truthy :: "'f pyops \<Rightarrow> 'f json \<Rightarrow> bool" where
  "truthy py v =
     (case v of
        JNull \<Rightarrow> False
      | JBool b \<Rightarrow> b
      | JInt n \<Rightarrow> n \<noteq> 0
      | JFloat x \<Rightarrow> float_truthy py x
      | JStr s \<Rightarrow> s \<noteq> []
      | JArr xs \<Rightarrow> xs \<noteq> []
      | JObj kvs \<Rightarrow> kvs \<noteq> [])"

text \<open>\<^verbatim>\<open>d.get(key, default)\<close> on a decoded dict.\<close>

definition py_get :: "(string \<times> 'f json) list \<Rightarrow> string \<Rightarrow> 'f json \<Rightarrow> 'f json" where
  "py_get kvs k dflt = (case map_of kvs k of None \<Rightarrow> dflt | Some v \<Rightarrow> v)"

text \<open>
  \<^verbatim>\<open>int(v * 100)\<close>. An \<^verbatim>\<open>int\<close> is multiplied exactly; \<^verbatim>\<open>bool\<close> is a subclass
  of \<^verbatim>\<open>int\<close>; \<^verbatim>\<open>None * 100\<close> and \<^verbatim>\<open>dict * 100\<close> raise \<^verbatim>\<open>TypeError\<close>, and so does
  \<^verbatim>\<open>int\<close> of the repeated list.
\<close>

definition cents :: "'f pyops \<Rightarrow> 'f json \<Rightarrow> exn + int" where
  "cents py v =
     (case v of
        JNull \<Rightarrow> Inl TypeError
      | JBool b \<Rightarrow> Inr (if b then 100 else 0)
      | JInt n \<Rightarrow> Inr (n * 100)
      | JFloat x \<Rightarrow> float_cents py x
      | JStr s \<Rightarrow> str_cents py s
      | JArr xs \<Rightarrow> Inl TypeError
      | JObj kvs \<Rightarrow> Inl TypeError)"

text \<open>
  The items that \<^verbatim>\<open>for pricing_info in v\<close> visits: the elements of a list, the keys
  of a dict, the one-character strings of a string; any other value is not iterable.
\<close>

definition iterate :: "'f json \<Rightarrow> exn + 'f json list" where
  "iterate v =
     (case v of
        JArr xs \<Rightarrow> Inr xs
      | JObj kvs \<Rightarrow> Inr (map (\<lambda>kv. JStr (fst kv)) kvs)
      | JStr s \<Rightarrow> Inr (map (\<lambda>c. JStr [c]) s)
      | JNull \<Rightarrow> Inl TypeError
      | JBool b \<Rightarrow> Inl TypeError
      | JInt n \<Rightarrow> Inl TypeError
      | JFloat x \<Rightarrow> Inl TypeError)"

section \<open>The pricing client (pricing.py, class CloudflarePricing)\<close>

text \<open>
  What one \<^verbatim>\<open>GET\<close> of the pricing URL ends in: \<^verbatim>\<open>client.get\<close> or
  \<^verbatim>\<open>raise_for_status\<close> raises \<^verbatim>\<open>httpx.HTTPError\<close>; or the body is not JSON and
  \<^verbatim>\<open>response.json()\<close> raises \<^verbatim>\<open>ValueError\<close>; or the body decodes to a value.
\<close>

datatype 'f fetch_outcome = HttpFailed | NotJson | Payload "'f json"

text \<open>
  The state of the client: the dict \<^verbatim>\<open>_price_cache\<close>, and the number of requests
  issued so far. The network is a function from that number to the outcome of the
  request, so the k-th request of a run may end differently from every other.
\<close>

record client =
  price_cache :: "string \<rightharpoonup> DomainPrice"
  fetch_count :: nat

text \<open>
  Lines 105 to 113: the price of the matching catalogue entry. The default of
  \<^verbatim>\<open>renewal_price\<close> is the \<^verbatim>\<open>price_cents\<close> just computed, and it is multiplied by
  100 like a value read from the entry.
\<close>

definition price_of_entry ::
  "pricing_config \<Rightarrow> 'f pyops \<Rightarrow> string \<Rightarrow> (string \<times> 'f json) list \<Rightarrow> exn + DomainPrice" where
  "price_of_entry cfg py t kvs =
     (case cents py (py_get kvs ''price'' (JInt 0)) of
        Inl e \<Rightarrow> Inl e
      | Inr pc \<Rightarrow>
          (case cents py (py_get kvs ''renewal_price'' (JInt pc)) of
             Inl e \<Rightarrow> Inl e
           | Inr rc \<Rightarrow> Inr (new_DomainPrice cfg (''.'' @ t) t pc ''USD'' (Some rc))))"

text \<open>
  Lines 103 to 119: the loop over the catalogue. An item that is not a dict has no
  \<^verbatim>\<open>get\<close>; \<^verbatim>\<open>pricing_info.get("tld") == tld\<close> holds only for the string \<^verbatim>\<open>tld\<close>.
  The loop returns at the first match, so later items are never looked at.
\<close>

fun scan_result ::
  "pricing_config \<Rightarrow> 'f pyops \<Rightarrow> string \<Rightarrow> 'f json list \<Rightarrow> exn + DomainPrice option" where
  "scan_result cfg py t [] = Inr None"
| "scan_result cfg py t (item # items) =
     (case item of
        JObj kvs \<Rightarrow>
          (if (case py_get kvs ''tld'' JNull of JStr s \<Rightarrow> s = t | _ \<Rightarrow> False)
           then (case price_of_entry cfg py t kvs of
                   Inl e \<Rightarrow> Inl e
                 | Inr p \<Rightarrow> Inr (Some p))
           else scan_result cfg py t items)
      | _ \<Rightarrow> Inl AttributeError)"

text \<open>
  Lines 93 to 119: the body of the \<^verbatim>\<open>try\<close>, given the outcome of the request. A
  payload that is not a dict has no \<^verbatim>\<open>get\<close>.
\<close>

definition try_body ::
  "pricing_config \<Rightarrow> 'f pyops \<Rightarrow> string \<Rightarrow> 'f fetch_outcome \<Rightarrow> exn + DomainPrice option" where
  "try_body cfg py t outcome =
     (case outcome of
        HttpFailed \<Rightarrow> Inl HTTPError
      | NotJson \<Rightarrow> Inl ValueError
      | Payload data \<Rightarrow>
          (case data of
             JObj kvs \<Rightarrow>
               (if \<not> truthy py (py_get kvs ''success'' JNull) then Inl PricingError
                else (case iterate (py_get kvs ''result'' (JArr [])) of
                        Inl e \<Rightarrow> Inl e
                      | Inr items \<Rightarrow> scan_result cfg py t items))
           | _ \<Rightarrow> Inl AttributeError))"

text \<open>
  The two \<^verbatim>\<open>except\<close> clauses of lines 121 to 124: \<^verbatim>\<open>httpx.HTTPError\<close>, then any
  other \<^verbatim>\<open>Exception\<close>; each raises a new \<^verbatim>\<open>PricingError\<close>.
\<close>

definition handler :: "exn \<Rightarrow> exn" where
  "handler e = (case e of HTTPError \<Rightarrow> PricingError | _ \<Rightarrow> PricingError)"

text \<open>
  \<^verbatim>\<open>get_tld_pricing\<close>. A cached TLD is answered without a request. Otherwise one
  request is issued; the entry is stored in the cache only on the path that found it.
\<close>

definition get_tld_pricing ::
  "pricing_config \<Rightarrow> 'f pyops \<Rightarrow> (nat \<Rightarrow> 'f fetch_outcome) \<Rightarrow> string \<Rightarrow> client
     \<Rightarrow> (exn + DomainPrice option) \<times> client" where
  "get_tld_pricing cfg py net t st =
     (case price_cache st t of
        Some p \<Rightarrow> (Inr (Some p), st)
      | None \<Rightarrow>
          (let st1 = st\<lparr>fetch_count := Suc (fetch_count st)\<rparr> in
           case try_body cfg py t (net (fetch_count st)) of
             Inl e \<Rightarrow> (Inl (handler e), st1)
           | Inr None \<Rightarrow> (Inr None, st1)
           | Inr (Some p) \<Rightarrow> (Inr (Some p), st1\<lparr>price_cache := (price_cache st1)(t \<mapsto> p)\<rparr>)))"

text \<open>\<^verbatim>\<open>s.split(".")\<close>: the pieces between the dots; never an empty list.\<close>

fun split_dot :: "string \<Rightarrow> string list" where
  "split_dot [] = [[]]"
| "split_dot (c # cs) =
     (if c = CHR ''.'' then [] # split_dot cs
      else (case split_dot cs of
              w # ws \<Rightarrow> (c # w) # ws
            | [] \<Rightarrow> [[c]]))"

text \<open>
  \<^verbatim>\<open>domain.lower().split(".")[-1]\<close>, with the runtime's \<^verbatim>\<open>str.lower\<close>. The list
  is never empty, so the index never raises and \<^term>\<open>last\<close> is its last piece.
\<close>

definition tld_of :: "'f pyops \<Rightarrow> string \<Rightarrow> string" where
  "tld_of py d = last (split_dot (str_lower py d))"

text \<open>The copy of a TLD's price for one domain (lines 142 to 148 and 182 to 188).\<close>

definition price_for_domain :: "pricing_config \<Rightarrow> string \<Rightarrow> DomainPrice \<Rightarrow> DomainPrice" where
  "price_for_domain cfg d p =
     new_DomainPrice cfg d (tld p) (price_cents p) (currency p) (annual_renewal_cents p)"

text \<open>
  The method \<^verbatim>\<open>get_domain_pricing\<close>. A \<^verbatim>\<open>PricingError\<close> of \<^verbatim>\<open>get_tld_pricing\<close>
  is not caught here.
\<close>

definition get_domain_pricing ::
  "pricing_config \<Rightarrow> 'f pyops \<Rightarrow> (nat \<Rightarrow> 'f fetch_outcome) \<Rightarrow> string \<Rightarrow> client
     \<Rightarrow> (exn + DomainPrice option) \<times> client" where
  "get_domain_pricing cfg py net d st =
     (case get_tld_pricing cfg py net (tld_of py d) st of
        (Inl e, st1) \<Rightarrow> (Inl e, st1)
      | (Inr None, st1) \<Rightarrow> (Inr None, st1)
      | (Inr (Some p), st1) \<Rightarrow> (Inr (Some (price_for_domain cfg d p)), st1))"

text \<open>
  Lines 166 to 174 of \<^verbatim>\<open>batch_pricing\<close>: the loop over the set of TLDs, given as the
  list of its elements in the order the loop visits them. The \<^verbatim>\<open>except\<close> clause
  catches \<^verbatim>\<open>PricingError\<close> only and goes on with the next TLD; any other exception
  ends the loop and leaves \<^verbatim>\<open>batch_pricing\<close>. The answer \<^verbatim>\<open>None\<close> stores nothing.
\<close>

fun fetch_tlds ::
  "pricing_config \<Rightarrow> 'f pyops \<Rightarrow> (nat \<Rightarrow> 'f fetch_outcome) \<Rightarrow> string list
     \<Rightarrow> (string \<rightharpoonup> DomainPrice) \<Rightarrow> client
     \<Rightarrow> (exn + (string \<rightharpoonup> DomainPrice)) \<times> client" where
  "fetch_tlds cfg py net [] pricing_results st = (Inr pricing_results, st)"
| "fetch_tlds cfg py net (t # ts) pricing_results st =
     (case get_tld_pricing cfg py net t st of
        (Inl e, st1) \<Rightarrow>
          (if e = PricingError then fetch_tlds cfg py net ts pricing_results st1
           else (Inl e, st1))
      | (Inr None, st1) \<Rightarrow> fetch_tlds cfg py net ts pricing_results st1
      | (Inr (Some p), st1) \<Rightarrow> fetch_tlds cfg py net ts (pricing_results(t \<mapsto> p)) st1)"

text \<open>Lines 177 to 188: the loop that maps the TLD prices back to the domains.\<close>

fun map_back ::
  "pricing_config \<Rightarrow> 'f pyops \<Rightarrow> (string \<rightharpoonup> DomainPrice) \<Rightarrow> string list
     \<Rightarrow> (string \<rightharpoonup> DomainPrice) \<Rightarrow> (string \<rightharpoonup> DomainPrice)" where
  "map_back cfg py pricing_results [] domain_pricing = domain_pricing"
| "map_back cfg py pricing_results (d # ds) domain_pricing =
     map_back cfg py pricing_results ds
       (case pricing_results (tld_of py d) of
          None \<Rightarrow> domain_pricing
        | Some p \<Rightarrow> domain_pricing(d \<mapsto> price_for_domain cfg d p))"

text \<open>
  A Python set visits its elements in an order the program does not choose. The
  order is a parameter of \<^verbatim>\<open>batch_pricing\<close>; it is an order of the set of line 163
  when it lists each lower-cased TLD of the domains once.
\<close>

definition iteration_order :: "'f pyops \<Rightarrow> string list \<Rightarrow> string list \<Rightarrow> bool" where
  "iteration_order py tlds domains \<longleftrightarrow>
     distinct tlds \<and> set tlds = set (map (tld_of py) domains)"

text \<open>
  \<^verbatim>\<open>batch_pricing\<close>, and \<^verbatim>\<open>get_batch_pricing\<close>, which calls it on the singleton
  client. An exception that leaves the first loop leaves \<^verbatim>\<open>batch_pricing\<close>; the
  second loop raises nothing.
\<close>

definition batch_pricing ::
  "pricing_config \<Rightarrow> 'f pyops \<Rightarrow> (nat \<Rightarrow> 'f fetch_outcome) \<Rightarrow> string list \<Rightarrow> string list
     \<Rightarrow> client \<Rightarrow> (exn + (string \<rightharpoonup> DomainPrice)) \<times> client" where
  "batch_pricing cfg py net tlds domains st =
     (case fetch_tlds cfg py net tlds Map.empty st of
        (Inl e, st1) \<Rightarrow> (Inl e, st1)
      | (Inr pricing_results, st1) \<Rightarrow>
          (Inr (map_back cfg py pricing_results domains Map.empty), st1))"

section \<open>Availability results (checker.py, not among the sources)\<close>

text \<open>
  Modelled from the spec: the status enum of \<^verbatim>\<open>DomainResult\<close>, which
  \<^verbatim>\<open>checker.py\<close> declares and \<^verbatim>\<open>cli.py\<close> compares with the strings
  \<^verbatim>\<open>"AVAILABLE"\<close>, \<^verbatim>\<open>"REGISTERED"\<close> and \<^verbatim>\<open>"UNKNOWN"\<close>.
\<close>

datatype status = AVAILABLE | REGISTERED | UNKNOWN

text \<open>
  Modelled from the spec: the class \<^verbatim>\<open>DomainResult\<close> of \<^verbatim>\<open>checker.py\<close>, with the
  fields the spec lists and \<^verbatim>\<open>cli.py\<close> reads. Its field \<^verbatim>\<open>domain\<close> is named
  \<open>result_domain\<close> here, apart from the field of \<^typ>\<open>DomainPrice\<close>. The last
  field is the attribute \<^verbatim>\<open>_pricing_info\<close> that \<^verbatim>\<open>cli.py\<close> sets on a result:
  \<^term>\<open>None\<close> while the attribute is absent.
\<close>

record DomainResult =
  result_domain :: string
  status :: status
  registrar :: "string option"
  expiration :: "string option"
  creation :: "string option"
  error :: "string option"
  pricing_info :: "DomainPrice option"

text \<open>
  Modelled from the spec: what the external registration lookup answers for one
  request: a registration record (registrar, expiration, creation, each optional), no
  record, or a failure with its reason.
\<close>

datatype lookup_outcome =
    Registration "string option" "string option" "string option"
  | NoRecord
  | LookupFailed string

text \<open>
  Modelled from the spec: \<^verbatim>\<open>check_domain\<close> of \<^verbatim>\<open>checker.py\<close>, given the answer of
  the lookup. A record gives REGISTERED with its details, no record gives AVAILABLE, a
  failure gives UNKNOWN with the reason as \<^verbatim>\<open>error\<close>; no failure is raised.
\<close>

definition check_domain :: "lookup_outcome \<Rightarrow> string \<Rightarrow> DomainResult" where
  "check_domain answer d =
     (case answer of
        Registration reg exp cre \<Rightarrow>
          \<lparr>result_domain = d, status = REGISTERED, registrar = reg, expiration = exp,
           creation = cre, error = None, pricing_info = None\<rparr>
      | NoRecord \<Rightarrow>
          \<lparr>result_domain = d, status = AVAILABLE, registrar = None, expiration = None,
           creation = None, error = None, pricing_info = None\<rparr>
      | LookupFailed reason \<Rightarrow>
          \<lparr>result_domain = d, status = UNKNOWN, registrar = None, expiration = None,
           creation = None, error = Some reason, pricing_info = None\<rparr>)"

text \<open>
  Modelled from the spec: \<^verbatim>\<open>check_domains\<close> of \<^verbatim>\<open>checker.py\<close>. It checks the
  domains one after the other in input order and returns one result for each. The
  lookup is a function of the number of the request and of the domain, so two requests
  for one name may be answered differently (a timeout on one of them). The pause
  between two requests and the progress output do not change the results.
\<close>

fun check_domains_from ::
  "(nat \<Rightarrow> string \<Rightarrow> lookup_outcome) \<Rightarrow> nat \<Rightarrow> string list \<Rightarrow> DomainResult list" where
  "check_domains_from lookup k [] = []"
| "check_domains_from lookup k (d # ds) =
     check_domain (lookup k d) d # check_domains_from lookup (Suc k) ds"

definition check_domains :: "(nat \<Rightarrow> string \<Rightarrow> lookup_outcome) \<Rightarrow> string list \<Rightarrow> DomainResult list" where
  "check_domains lookup domains = check_domains_from lookup 0 domains"

section \<open>The command line's checks (cli.py)\<close>

text \<open>
  \<^verbatim>\<open>check_single_domain\<close>, given the answer of the lookup. Pricing is asked for only
  when the result is AVAILABLE; the \<^verbatim>\<open>except Exception\<close> prints a warning and the
  result is returned without pricing.
\<close>

definition check_single_domain ::
  "pricing_config \<Rightarrow> 'f pyops \<Rightarrow> (nat \<Rightarrow> 'f fetch_outcome) \<Rightarrow> lookup_outcome \<Rightarrow> string \<Rightarrow> bool
     \<Rightarrow> client \<Rightarrow> DomainResult \<times> client" where
  "check_single_domain cfg py net answer d include_pricing st =
     (let result = check_domain answer d in
      if include_pricing \<and> status result = AVAILABLE then
        (case get_domain_pricing cfg py net d st of
           (Inl e, st1) \<Rightarrow> (result, st1)
         | (Inr None, st1) \<Rightarrow> (result, st1)
         | (Inr (Some p), st1) \<Rightarrow> (result\<lparr>pricing_info := Some p\<rparr>, st1))
      else (result, st))"

text \<open>Line 128: the domains of the results whose status is AVAILABLE, in order.\<close>

definition available_domains :: "DomainResult list \<Rightarrow> string list" where
  "available_domains results = map result_domain (filter (\<lambda>r. status r = AVAILABLE) results)"

text \<open>
  Lines 133 to 135: the loop that sets \<^verbatim>\<open>_pricing_info\<close>. Its test is
  \<^verbatim>\<open>result.domain in pricing_info\<close>; it does not read the status.
\<close>

definition attach :: "(string \<rightharpoonup> DomainPrice) \<Rightarrow> DomainResult \<Rightarrow> DomainResult" where
  "attach info r =
     (case info (result_domain r) of
        Some p \<Rightarrow> r\<lparr>pricing_info := Some p\<rparr>
      | None \<Rightarrow> r)"

text \<open>
  Lines 126 to 139 of \<^verbatim>\<open>check_multiple_domains\<close>: what is done with the results of
  \<^verbatim>\<open>check_domains\<close>. The \<^verbatim>\<open>except Exception\<close> of lines 136 and 137 catches whatever
  \<^verbatim>\<open>get_batch_pricing\<close> raises, prints a warning and leaves the results without
  pricing. The list \<open>tlds\<close> is the order in which \<^verbatim>\<open>batch_pricing\<close> visits the TLDs
  of the available domains.
\<close>

definition price_results ::
  "pricing_config \<Rightarrow> 'f pyops \<Rightarrow> (nat \<Rightarrow> 'f fetch_outcome) \<Rightarrow> string list \<Rightarrow> DomainResult list
     \<Rightarrow> bool \<Rightarrow> client \<Rightarrow> DomainResult list \<times> client" where
  "price_results cfg py net tlds results include_pricing st =
     (if include_pricing then
        (if available_domains results \<noteq> [] then
           (case batch_pricing cfg py net tlds (available_domains results) st of
              (Inl e, st1) \<Rightarrow> (results, st1)
            | (Inr info, st1) \<Rightarrow> (map (attach info) results, st1))
         else (results, st))
      else (results, st))"

text \<open>\<^verbatim>\<open>check_multiple_domains\<close>: the availability checks, then the pricing.\<close>

definition check_multiple_domains ::
  "pricing_config \<Rightarrow> 'f pyops \<Rightarrow> (nat \<Rightarrow> 'f fetch_outcome) \<Rightarrow> (nat \<Rightarrow> string \<Rightarrow> lookup_outcome)
     \<Rightarrow> string list \<Rightarrow> string list \<Rightarrow> bool \<Rightarrow> client \<Rightarrow> DomainResult list \<times> client" where
  "check_multiple_domains cfg py net lookup tlds domains include_pricing st =
     price_results cfg py net tlds (check_domains lookup domains) include_pricing st"

section \<open>Notions used by the statements\<close>

text \<open>
  An item of the catalogue over which the loop of lines 103 to 116 passes: a dict
  whose \<^verbatim>\<open>tld\<close> is not the TLD asked for.
\<close>

definition skipped :: "string \<Rightarrow> 'f json \<Rightarrow> bool" where
  "skipped t item =
     (case item of
        JObj kvs \<Rightarrow> \<not> (case py_get kvs ''tld'' JNull of JStr s \<Rightarrow> s = t | _ \<Rightarrow> False)
      | _ \<Rightarrow> False)"

text \<open>
  An entry whose price cannot be built: \<^verbatim>\<open>int(price * 100)\<close> raises, or the entry
  has a \<^verbatim>\<open>renewal_price\<close> and \<^verbatim>\<open>int(renewal_price * 100)\<close> raises.
\<close>

definition entry_raises :: "'f pyops \<Rightarrow> (string \<times> 'f json) list \<Rightarrow> bool" where
  "entry_raises py kvs =
     (case cents py (py_get kvs ''price'' (JInt 0)) of
        Inl e \<Rightarrow> True
      | Inr pc \<Rightarrow>
          (case map_of kvs ''renewal_price'' of
             None \<Rightarrow> False
           | Some v \<Rightarrow> (case cents py v of Inl e \<Rightarrow> True | Inr rc \<Rightarrow> False)))"

text \<open>
  The outcomes of a request on which the handling of lines 95 to 116 raises for a
  TLD: the request raises \<^verbatim>\<open>httpx.HTTPError\<close>; the body is not JSON; the payload is
  not a dict; \<^verbatim>\<open>not data.get("success")\<close> holds; the \<^verbatim>\<open>result\<close> cannot be
  iterated; the first item that the loop does not pass over is not a dict, or is an
  entry for the TLD whose price cannot be built. A payload that is malformed in
  another place is not among them.
\<close>

definition fetch_raises :: "'f pyops \<Rightarrow> string \<Rightarrow> 'f fetch_outcome \<Rightarrow> bool" where
  "fetch_raises py t outcome =
     (case outcome of
        HttpFailed \<Rightarrow> True
      | NotJson \<Rightarrow> True
      | Payload data \<Rightarrow>
          (case data of
             JObj kvs \<Rightarrow>
               (if \<not> truthy py (py_get kvs ''success'' JNull) then True
                else (case iterate (py_get kvs ''result'' (JArr [])) of
                        Inl e \<Rightarrow> True
                      | Inr items \<Rightarrow>
                          (case dropWhile (skipped t) items of
                             [] \<Rightarrow> False
                           | item # rest \<Rightarrow>
                               (case item of
                                  JObj entry \<Rightarrow> entry_raises py entry
                                | _ \<Rightarrow> True))))
           | _ \<Rightarrow> True))"


text \<open>
  The dict that \<^verbatim>\<open>batch_pricing\<close> returned, and the empty dict when it raised.
\<close>

definition returned_dict :: "exn + (string \<rightharpoonup> DomainPrice) \<Rightarrow> (string \<rightharpoonup> DomainPrice)" where
  "returned_dict r = (case r of Inl e \<Rightarrow> Map.empty | Inr info \<Rightarrow> info)"

text \<open>
  Concrete inputs for the examples: the thresholds of the spec's scenario, thresholds
  whose premium flag lies below the recommended maximum, a catalogue with two TLDs,
  and the client of a new run. Every string of the examples is ASCII, and on a string
  of ASCII characters \<^verbatim>\<open>str.lower\<close> changes the letters A to Z and nothing else;
  the runtime of the examples lower-cases so. Their payloads hold no float and no
  string price.
\<close>

definition ascii_lower_char :: "char \<Rightarrow> char" where
  "ascii_lower_char c =
     (case map_of (zip ''ABCDEFGHIJKLMNOPQRSTUVWXYZ'' ''abcdefghijklmnopqrstuvwxyz'') c of
        Some l \<Rightarrow> l
      | None \<Rightarrow> c)"

abbreviation sample_cfg :: pricing_config where
  "sample_cfg \<equiv>
     \<lparr>bundled_max_cents = 500, recommended_max_cents = 1500, premium_flag_above_cents = 3000\<rparr>"

abbreviation overlap_cfg :: pricing_config where
  "overlap_cfg \<equiv>
     \<lparr>bundled_max_cents = 500, recommended_max_cents = 1500, premium_flag_above_cents = 1000\<rparr>"

abbreviation plain_py :: "unit pyops" where
  "plain_py \<equiv>
     \<lparr>float_truthy = (\<lambda>x. True), float_cents = (\<lambda>x. Inl ValueError),
      str_cents = (\<lambda>s. Inl ValueError), str_lower = map ascii_lower_char\<rparr>"

abbreviation sample_catalog :: "unit json" where
  "sample_catalog \<equiv>
     JObj [(''success'', JBool True),
           (''result'',
            JArr [JObj [(''tld'', JStr ''com''), (''price'', JInt 9)],
                  JObj [(''tld'', JStr ''io''), (''price'', JInt 35),
                        (''renewal_price'', JInt 40)]])]"

abbreviation fresh_client :: client where
  "fresh_client \<equiv> \<lparr>price_cache = Map.empty, fetch_count = 0\<rparr>"

lemmas eval_simps =
  get_tld_pricing_def try_body_def handler_def truthy_def py_get_def cents_def iterate_def
  price_of_entry_def new_DomainPrice_def post_init_def Let_def

lemmas batch_simps =
  batch_pricing_def tld_of_def ascii_lower_char_def price_for_domain_def

lemmas cli_simps =
  check_multiple_domains_def price_results_def check_domains_def check_domain_def
  available_domains_def attach_def

section \<open>Properties of the tiers\<close>

lemma flags_new_DomainPrice:
  "is_bundled (new_DomainPrice cfg d t c cur ren) = (c \<le> bundled_max_cents cfg)"
  "is_recommended (new_DomainPrice cfg d t c cur ren) = (c \<le> recommended_max_cents cfg)"
  "is_premium (new_DomainPrice cfg d t c cur ren) = (premium_flag_above_cents cfg \<le> c)"
  "price_cents (new_DomainPrice cfg d t c cur ren) = c"
  by (simp_all add: new_DomainPrice_def post_init_def)

text \<open>
  C5. For every price and every threshold triple, the category of a constructed
  DomainPrice is given by the precedence chain: bundled if the price is at most
  \<open>bundled_max_cents\<close>; else recommended if it is at most \<open>recommended_max_cents\<close>;
  else premium if it is at least \<open>premium_flag_above_cents\<close>; else standard. The
  category is one of the four names.
\<close>

theorem category_precedence:
  "category (new_DomainPrice cfg d t c cur ren) =
     (if c \<le> bundled_max_cents cfg then ''bundled''
      else if c \<le> recommended_max_cents cfg then ''recommended''
      else if premium_flag_above_cents cfg \<le> c then ''premium''
      else ''standard'')
   \<and> category (new_DomainPrice cfg d t c cur ren)
       \<in> {''bundled'', ''recommended'', ''premium'', ''standard''}"
  by (simp add: category_def flags_new_DomainPrice)

text \<open>The scenario of the spec: 400, 1000, 3500 and 2000 cents.\<close>

theorem category_precedence_witness:
  "category (new_DomainPrice sample_cfg ''a.com'' ''com'' 400 ''USD'' None) = ''bundled''
   \<and> category (new_DomainPrice sample_cfg ''a.com'' ''com'' 1000 ''USD'' None) = ''recommended''
   \<and> category (new_DomainPrice sample_cfg ''a.com'' ''com'' 3500 ''USD'' None) = ''premium''
   \<and> category (new_DomainPrice sample_cfg ''a.com'' ''com'' 2000 ''USD'' None) = ''standard''"
  using
    category_precedence [of sample_cfg "''a.com''" "''com''" 400 "''USD''" None]
    category_precedence [of sample_cfg "''a.com''" "''com''" 1000 "''USD''" None]
    category_precedence [of sample_cfg "''a.com''" "''com''" 3500 "''USD''" None]
    category_precedence [of sample_cfg "''a.com''" "''com''" 2000 "''USD''" None]
  by simp

text \<open>
  C6, as the claim states it, fails: with the premium flag at 1000 and the
  recommended maximum at 1500, a price of 1200 is above the flag and above the bundled
  maximum, and its category is recommended, not premium.
\<close>

theorem premium_does_not_override:
  "premium_flag_above_cents overlap_cfg < 1200
   \<and> bundled_max_cents overlap_cfg < 1200
   \<and> category (new_DomainPrice overlap_cfg ''a.com'' ''com'' 1200 ''USD'' None) = ''recommended''
   \<and> category (new_DomainPrice overlap_cfg ''a.com'' ''com'' 1200 ''USD'' None) \<noteq> ''premium''"
  by (simp add: category_def flags_new_DomainPrice)

text \<open>
  C6, amended. For every price above \<open>premium_flag_above_cents\<close> and above
  \<open>bundled_max_cents\<close>, the category is premium exactly when the price is also
  above \<open>recommended_max_cents\<close>; when it is at most \<open>recommended_max_cents\<close> the
  category is recommended: the recommended match comes first.
\<close>

theorem premium_after_recommended:
  "bundled_max_cents cfg < c \<Longrightarrow> premium_flag_above_cents cfg < c \<Longrightarrow>
   category (new_DomainPrice cfg d t c cur ren) =
     (if c \<le> recommended_max_cents cfg then ''recommended'' else ''premium'')"
  by (simp add: category_def flags_new_DomainPrice)

theorem premium_after_recommended_witness:
  "bundled_max_cents sample_cfg < 3500
   \<and> premium_flag_above_cents sample_cfg < 3500
   \<and> category (new_DomainPrice sample_cfg ''a.com'' ''com'' 3500 ''USD'' None) = ''premium''"
proof -
  have b: "bundled_max_cents sample_cfg < 3500" by simp
  have f: "premium_flag_above_cents sample_cfg < 3500" by simp
  show ?thesis
    using b f premium_after_recommended [OF b f, of "''a.com''" "''com''" "''USD''" None]
    by simp
qed

text \<open>
  C10. The three flags of a constructed DomainPrice are three separate comparisons
  of the price with the thresholds. They are not exclusive: when
  \<open>bundled_max_cents \<le> recommended_max_cents\<close>, a bundled price is also recommended;
  a price between \<open>premium_flag_above_cents\<close> and \<open>recommended_max_cents\<close> is both
  recommended and premium. The category is a single name all the same.
\<close>

theorem flags_are_comparisons:
  "is_bundled (new_DomainPrice cfg d t c cur ren) = (c \<le> bundled_max_cents cfg)
   \<and> is_recommended (new_DomainPrice cfg d t c cur ren) = (c \<le> recommended_max_cents cfg)
   \<and> is_premium (new_DomainPrice cfg d t c cur ren) = (premium_flag_above_cents cfg \<le> c)
   \<and> (bundled_max_cents cfg \<le> recommended_max_cents cfg \<longrightarrow>
        is_bundled (new_DomainPrice cfg d t c cur ren) \<longrightarrow>
        is_recommended (new_DomainPrice cfg d t c cur ren))
   \<and> (premium_flag_above_cents cfg \<le> c \<and> c \<le> recommended_max_cents cfg \<longrightarrow>
        is_recommended (new_DomainPrice cfg d t c cur ren)
        \<and> is_premium (new_DomainPrice cfg d t c cur ren)
        \<and> category (new_DomainPrice cfg d t c cur ren) \<noteq> ''premium'')"
  by (auto simp: flags_new_DomainPrice category_def)

theorem flags_are_comparisons_witness:
  "bundled_max_cents overlap_cfg \<le> recommended_max_cents overlap_cfg
   \<and> is_bundled (new_DomainPrice overlap_cfg ''a.com'' ''com'' 400 ''USD'' None)
   \<and> is_recommended (new_DomainPrice overlap_cfg ''a.com'' ''com'' 400 ''USD'' None)
   \<and> premium_flag_above_cents overlap_cfg \<le> 1200
   \<and> 1200 \<le> recommended_max_cents overlap_cfg
   \<and> is_recommended (new_DomainPrice overlap_cfg ''a.com'' ''com'' 1200 ''USD'' None)
   \<and> is_premium (new_DomainPrice overlap_cfg ''a.com'' ''com'' 1200 ''USD'' None)"
  using
    flags_are_comparisons [of overlap_cfg "''a.com''" "''com''" 400 "''USD''" None]
    flags_are_comparisons [of overlap_cfg "''a.com''" "''com''" 1200 "''USD''" None]
  by simp

section \<open>Properties of get_tld_pricing\<close>

lemma handler_PricingError: "handler e = PricingError"
  by (cases e) (simp_all add: handler_def)

lemma get_tld_pricing_hit:
  "price_cache st t = Some p \<Longrightarrow> get_tld_pricing cfg py net t st = (Inr (Some p), st)"
  by (simp add: get_tld_pricing_def)

lemma get_tld_pricing_miss:
  "price_cache st t = None \<Longrightarrow>
   get_tld_pricing cfg py net t st =
     (case try_body cfg py t (net (fetch_count st)) of
        Inl e \<Rightarrow> (Inl PricingError, st\<lparr>fetch_count := Suc (fetch_count st)\<rparr>)
      | Inr None \<Rightarrow> (Inr None, st\<lparr>fetch_count := Suc (fetch_count st)\<rparr>)
      | Inr (Some p) \<Rightarrow>
          (Inr (Some p), st\<lparr>fetch_count := Suc (fetch_count st),
                              price_cache := (price_cache st)(t \<mapsto> p)\<rparr>))"
  by (simp add: get_tld_pricing_def Let_def handler_PricingError split: sum.splits option.splits)

lemma price_of_entry_raises:
  "(\<exists>e. price_of_entry cfg py t kvs = Inl e) \<longleftrightarrow> entry_raises py kvs"
  by (auto simp: price_of_entry_def entry_raises_def py_get_def cents_def
           split: sum.splits option.splits)

lemma scan_result_skipped:
  "skipped t item \<Longrightarrow> scan_result cfg py t (item # items) = scan_result cfg py t items"
  by (auto simp: skipped_def split: json.splits)

lemma scan_result_first:
  "scan_result cfg py t items =
     (case dropWhile (skipped t) items of
        [] \<Rightarrow> Inr None
      | item # rest \<Rightarrow>
          (case item of
             JObj kvs \<Rightarrow>
               (case price_of_entry cfg py t kvs of Inl e \<Rightarrow> Inl e | Inr p \<Rightarrow> Inr (Some p))
           | _ \<Rightarrow> Inl AttributeError))"
proof (induction items)
  case Nil
  then show ?case by simp
next
  case (Cons item items)
  show ?case
  proof (cases "skipped t item")
    case True
    then have "scan_result cfg py t (item # items) = scan_result cfg py t items"
      by (rule scan_result_skipped)
    then show ?thesis using True Cons.IH by (simp del: scan_result.simps)
  next
    case False
    then show ?thesis
      by (cases item) (auto simp: skipped_def split: json.splits sum.splits)
  qed
qed

lemma scan_result_raises:
  "(\<exists>e. scan_result cfg py t items = Inl e) \<longleftrightarrow>
     (case dropWhile (skipped t) items of
        [] \<Rightarrow> False
      | item # rest \<Rightarrow> (case item of JObj entry \<Rightarrow> entry_raises py entry | _ \<Rightarrow> True))"
proof -
  define found where "found = dropWhile (skipped t) items"
  have s: "scan_result cfg py t items =
     (case found of
        [] \<Rightarrow> Inr None
      | item # rest \<Rightarrow>
          (case item of
             JObj kvs \<Rightarrow>
               (case price_of_entry cfg py t kvs of Inl e \<Rightarrow> Inl e | Inr p \<Rightarrow> Inr (Some p))
           | _ \<Rightarrow> Inl AttributeError))"
    unfolding found_def by (rule scan_result_first)
  have "(\<exists>e. scan_result cfg py t items = Inl e) \<longleftrightarrow>
     (case found of
        [] \<Rightarrow> False
      | item # rest \<Rightarrow> (case item of JObj entry \<Rightarrow> entry_raises py entry | _ \<Rightarrow> True))"
  proof (cases found)
    case Nil
    then show ?thesis unfolding s by simp
  next
    case (Cons item rest)
    show ?thesis
    proof (cases item)
      case (JObj kvs)
      have "(\<exists>e. (case price_of_entry cfg py t kvs of Inl e \<Rightarrow> Inl e | Inr p \<Rightarrow> Inr (Some p))
                = (Inl e :: exn + DomainPrice option)) \<longleftrightarrow> entry_raises py kvs"
        using price_of_entry_raises [of cfg py t kvs] by (auto split: sum.splits)
      then show ?thesis unfolding s using Cons JObj by simp
    qed (simp_all add: s Cons del: scan_result.simps)
  qed
  then show ?thesis unfolding found_def .
qed

lemma try_body_raises:
  "(\<exists>e. try_body cfg py t outcome = Inl e) \<longleftrightarrow> fetch_raises py t outcome"
proof (cases outcome)
  case HttpFailed
  then show ?thesis by (simp add: try_body_def fetch_raises_def)
next
  case NotJson
  then show ?thesis by (simp add: try_body_def fetch_raises_def)
next
  case (Payload data)
  show ?thesis
  proof (cases data)
    case (JObj kvs)
    show ?thesis
    proof (cases "truthy py (py_get kvs ''success'' JNull)")
      case False
      then show ?thesis using Payload JObj by (simp add: try_body_def fetch_raises_def)
    next
      case True
      show ?thesis
      proof (cases "iterate (py_get kvs ''result'' (JArr []))")
        case (Inl e)
        then show ?thesis using Payload JObj True by (simp add: try_body_def fetch_raises_def)
      next
        case (Inr items)
        then show ?thesis
          using Payload JObj True scan_result_raises [of cfg py t items]
          by (simp add: try_body_def fetch_raises_def)
      qed
    qed
  qed (simp_all add: Payload try_body_def fetch_raises_def)
qed

lemma get_tld_pricing_only_PricingError:
  "fst (get_tld_pricing cfg py net t st) = Inl e \<Longrightarrow> e = PricingError"
  by (cases "price_cache st t")
     (auto simp: get_tld_pricing_miss get_tld_pricing_hit split: sum.splits option.splits)

text \<open>
  C7, as the claim states it, fails for a malformed payload that the handling never
  trips over: a payload whose \<open>result\<close> is an empty dict, or is missing, makes
  \<open>get_tld_pricing\<close> return the value \<open>None\<close>, and a payload with a malformed item
  after the entry for the TLD makes it return the price; no \<open>PricingError\<close> is
  raised.
\<close>

theorem undetected_malformed_payload_returns:
  "fst (get_tld_pricing sample_cfg plain_py
          (\<lambda>k. Payload (JObj [(''success'', JBool True), (''result'', JObj [])]))
          ''com'' fresh_client)
     = Inr None
   \<and> fst (get_tld_pricing sample_cfg plain_py
          (\<lambda>k. Payload (JObj [(''success'', JBool True)]))
          ''com'' fresh_client)
     = Inr None
   \<and> fst (get_tld_pricing sample_cfg plain_py
          (\<lambda>k. Payload (JObj [(''success'', JBool True),
                 (''result'', JArr [JObj [(''tld'', JStr ''com''), (''price'', JInt 9)],
                                    JNull])]))
          ''com'' fresh_client)
     = Inr (Some \<lparr>domain = ''.com'', tld = ''com'', price_cents = 900, currency = ''USD'',
                   is_premium = False, is_bundled = False, is_recommended = True,
                   annual_renewal_cents = Some 90000\<rparr>)"
  by (simp add: eval_simps)

text \<open>
  C7, amended. For a TLD that is not cached, \<open>get_tld_pricing\<close> raises
  \<open>PricingError\<close> and returns no value exactly when the request or the handling of
  its payload raises: an HTTP error, a body that is not JSON, a payload that is not a
  dict, a \<open>success\<close> that is false, a \<open>result\<close> that cannot be iterated, an item
  that is not a dict met before any entry for the TLD, or a first entry for the TLD
  whose \<open>price\<close> or \<open>renewal_price\<close> cannot be converted; the request is counted
  and the cache is left as it was. On every other payload, also one malformed in
  another place, it returns a value. On every input, an exception that
  \<open>get_tld_pricing\<close> raises is \<open>PricingError\<close> and no other.
\<close>

theorem fetch_raises_PricingError:
  "(price_cache st t = None \<and> fetch_raises py t (net (fetch_count st)) \<longrightarrow>
      get_tld_pricing cfg py net t st =
        (Inl PricingError, st\<lparr>fetch_count := Suc (fetch_count st)\<rparr>))
   \<and> (price_cache st t = None \<and> \<not> fetch_raises py t (net (fetch_count st)) \<longrightarrow>
      (\<exists>v. fst (get_tld_pricing cfg py net t st) = Inr v))
   \<and> (\<forall>e. fst (get_tld_pricing cfg py net t st) = Inl e \<longrightarrow> e = PricingError)"
proof (intro conjI impI allI)
  assume a: "price_cache st t = None \<and> fetch_raises py t (net (fetch_count st))"
  then obtain e where "try_body cfg py t (net (fetch_count st)) = Inl e"
    using try_body_raises [of cfg py t] by blast
  with a show "get_tld_pricing cfg py net t st =
      (Inl PricingError, st\<lparr>fetch_count := Suc (fetch_count st)\<rparr>)"
    by (simp add: get_tld_pricing_miss)
next
  assume a: "price_cache st t = None \<and> \<not> fetch_raises py t (net (fetch_count st))"
  then have "\<And>e. try_body cfg py t (net (fetch_count st)) \<noteq> Inl e"
    using try_body_raises [of cfg py t] by blast
  then obtain r where "try_body cfg py t (net (fetch_count st)) = Inr r"
    by (cases "try_body cfg py t (net (fetch_count st))") auto
  with a show "\<exists>v. fst (get_tld_pricing cfg py net t st) = Inr v"
    by (cases r) (simp_all add: get_tld_pricing_miss)
next
  fix e
  assume "fst (get_tld_pricing cfg py net t st) = Inl e"
  then show "e = PricingError" by (rule get_tld_pricing_only_PricingError)
qed

text \<open>
  Failing requests on a new client: an HTTP error, a body that is not JSON, a payload
  that is a list, a payload with \<open>success\<close> false, a \<open>result\<close> that is null, an
  item that is a number, an entry for the TLD whose price is null.
\<close>

lemma fetch_raises_examples:
  "fetch_raises plain_py ''com'' HttpFailed"
  "fetch_raises plain_py ''com'' NotJson"
  "fetch_raises plain_py ''com'' (Payload (JArr []))"
  "fetch_raises plain_py ''com''
     (Payload (JObj [(''success'', JBool False), (''errors'', JArr [])]))"
  "fetch_raises plain_py ''com''
     (Payload (JObj [(''success'', JBool True), (''result'', JNull)]))"
  "fetch_raises plain_py ''com''
     (Payload (JObj [(''success'', JBool True), (''result'', JArr [JInt 5])]))"
  "fetch_raises plain_py ''com''
     (Payload (JObj [(''success'', JBool True),
        (''result'', JArr [JObj [(''tld'', JStr ''com''), (''price'', JNull)]])]))"
  by (simp_all add: fetch_raises_def truthy_def py_get_def iterate_def skipped_def
        entry_raises_def cents_def)

theorem fetch_raises_PricingError_witness:
  "price_cache fresh_client ''com'' = None
   \<and> fst (get_tld_pricing sample_cfg plain_py (\<lambda>k. HttpFailed) ''com'' fresh_client)
       = Inl PricingError
   \<and> fst (get_tld_pricing sample_cfg plain_py (\<lambda>k. NotJson) ''com'' fresh_client)
       = Inl PricingError
   \<and> fst (get_tld_pricing sample_cfg plain_py
            (\<lambda>k. Payload (JObj [(''success'', JBool False), (''errors'', JArr [])]))
            ''com'' fresh_client)
       = Inl PricingError
   \<and> fst (get_tld_pricing sample_cfg plain_py
            (\<lambda>k. Payload (JObj [(''success'', JBool True), (''result'', JNull)]))
            ''com'' fresh_client)
       = Inl PricingError
   \<and> fst (get_tld_pricing sample_cfg plain_py
            (\<lambda>k. Payload (JObj [(''success'', JBool True), (''result'', JArr [JInt 5])]))
            ''com'' fresh_client)
       = Inl PricingError
   \<and> fst (get_tld_pricing sample_cfg plain_py
            (\<lambda>k. Payload (JObj [(''success'', JBool True),
               (''result'', JArr [JObj [(''tld'', JStr ''com''), (''price'', JNull)]])]))
            ''com'' fresh_client)
       = Inl PricingError"
proof -
  have c: "price_cache fresh_client ''com'' = None" by simp
  note T = fetch_raises_PricingError
    [where st = fresh_client and t = "''com''" and py = plain_py and cfg = sample_cfg]
  show ?thesis
    using c
      T [where net = "\<lambda>k. HttpFailed"]
      T [where net = "\<lambda>k. NotJson"]
      T [where net = "\<lambda>k. Payload (JObj [(''success'', JBool False), (''errors'', JArr [])])"]
      T [where net = "\<lambda>k. Payload (JObj [(''success'', JBool True), (''result'', JNull)])"]
      T [where net = "\<lambda>k. Payload (JObj [(''success'', JBool True),
                                          (''result'', JArr [JInt 5])])"]
      T [where net = "\<lambda>k. Payload (JObj [(''success'', JBool True),
           (''result'', JArr [JObj [(''tld'', JStr ''com''), (''price'', JNull)]])])"]
    by (simp add: fetch_raises_examples)
qed

text \<open>
  C2, as the claim states it, fails for a TLD that the catalogue does not list: the
  first call returns no pricing and caches nothing, so the second call issues a second
  request. Two calls for \<open>zz\<close> on a new client issue two requests.
\<close>

theorem absent_tld_fetched_twice:
  "fst (get_tld_pricing sample_cfg plain_py (\<lambda>k. Payload sample_catalog) ''zz'' fresh_client)
     = Inr None
   \<and> fetch_count
        (snd (get_tld_pricing sample_cfg plain_py (\<lambda>k. Payload sample_catalog) ''zz''
          (snd (get_tld_pricing sample_cfg plain_py (\<lambda>k. Payload sample_catalog) ''zz''
                 fresh_client))))
       = 2
   \<and> \<not> fetch_count
        (snd (get_tld_pricing sample_cfg plain_py (\<lambda>k. Payload sample_catalog) ''zz''
          (snd (get_tld_pricing sample_cfg plain_py (\<lambda>k. Payload sample_catalog) ''zz''
                 fresh_client))))
       \<le> fetch_count fresh_client + 1"
  by (simp add: eval_simps)

text \<open>
  C2, amended. For every TLD for which the first call of \<open>get_tld_pricing\<close> returns
  a price, a second call right after it returns the same price from the cache, leaves
  the client as it is and issues no request: at most one request in total. When the
  first call returns no price (the TLD is absent from the catalogue, or the request
  failed), nothing is cached and the second call issues a request of its own: two in
  total.
\<close>

theorem cached_price_answers_second_call:
  "(case get_tld_pricing cfg py net t st of
      (r1, st1) \<Rightarrow>
        (case get_tld_pricing cfg py net t st1 of
           (r2, st2) \<Rightarrow>
             (\<forall>p. r1 = Inr (Some p) \<longrightarrow>
                  r2 = r1 \<and> st2 = st1 \<and> fetch_count st2 \<le> fetch_count st + 1)
           \<and> ((\<forall>p. r1 \<noteq> Inr (Some p)) \<longrightarrow>
                  price_cache st1 = price_cache st \<and> fetch_count st2 = fetch_count st + 2)))"
  by (cases "price_cache st t")
     (auto simp: get_tld_pricing_miss get_tld_pricing_hit
           split: sum.splits option.splits prod.splits)

lemma get_tld_pricing_com:
  "get_tld_pricing sample_cfg plain_py (\<lambda>k. Payload sample_catalog) ''com'' fresh_client =
     (Inr (Some \<lparr>domain = ''.com'', tld = ''com'', price_cents = 900, currency = ''USD'',
                  is_premium = False, is_bundled = False, is_recommended = True,
                  annual_renewal_cents = Some 90000\<rparr>),
      \<lparr>price_cache =
         [''com'' \<mapsto> \<lparr>domain = ''.com'', tld = ''com'', price_cents = 900, currency = ''USD'',
                       is_premium = False, is_bundled = False, is_recommended = True,
                       annual_renewal_cents = Some 90000\<rparr>],
       fetch_count = 1\<rparr>)"
  by (simp add: eval_simps)

theorem cached_price_answers_second_call_witness:
  "fetch_count
     (snd (get_tld_pricing sample_cfg plain_py (\<lambda>k. Payload sample_catalog) ''com''
       (snd (get_tld_pricing sample_cfg plain_py (\<lambda>k. Payload sample_catalog) ''com''
              fresh_client))))
     \<le> 1
   \<and> fst (get_tld_pricing sample_cfg plain_py (\<lambda>k. Payload sample_catalog) ''com''
       (snd (get_tld_pricing sample_cfg plain_py (\<lambda>k. Payload sample_catalog) ''com''
              fresh_client)))
     = fst (get_tld_pricing sample_cfg plain_py (\<lambda>k. Payload sample_catalog) ''com''
              fresh_client)"
  using cached_price_answers_second_call
    [where cfg = sample_cfg and py = plain_py and net = "\<lambda>k. Payload sample_catalog"
       and t = "''com''" and st = fresh_client]
  by (simp add: get_tld_pricing_com split: prod.splits)

text \<open>
  C9, as the claim states it, fails at a price of zero: for an entry without
  \<open>renewal_price\<close> and without \<open>price\<close> (or with the price 0), the renewal is
  100 times 0, which is equal to the price in cents.
\<close>

theorem zero_price_renewal_equals_price:
  "map_of [(''tld'', JStr ''com'') :: string \<times> unit json] ''renewal_price'' = None
   \<and> price_of_entry sample_cfg plain_py ''com'' [(''tld'', JStr ''com'')]
       = Inr \<lparr>domain = ''.com'', tld = ''com'', price_cents = 0, currency = ''USD'',
              is_premium = False, is_bundled = True, is_recommended = True,
              annual_renewal_cents = Some 0\<rparr>
   \<and> price_of_entry sample_cfg plain_py ''com'' [(''tld'', JStr ''com''), (''price'', JInt 0)]
       = Inr \<lparr>domain = ''.com'', tld = ''com'', price_cents = 0, currency = ''USD'',
              is_premium = False, is_bundled = True, is_recommended = True,
              annual_renewal_cents = Some 0\<rparr>"
  by (simp add: eval_simps)

text \<open>
  C9, amended. For a catalogue entry from which a price is built: the price in cents
  is \<open>int(price * 100)\<close>; when the entry has no \<open>renewal_price\<close>, the renewal is 100
  times the price in cents (the cents multiplied by 100 once more), which is equal to
  the price in cents only when that is zero; when the entry has a \<open>renewal_price\<close>,
  the renewal is \<open>int(renewal_price * 100)\<close>.
\<close>

theorem renewal_default_times_100:
  "price_of_entry cfg py t kvs = Inr p \<Longrightarrow>
     cents py (py_get kvs ''price'' (JInt 0)) = Inr (price_cents p)
   \<and> (map_of kvs ''renewal_price'' = None \<longrightarrow>
        annual_renewal_cents p = Some (100 * price_cents p)
      \<and> (annual_renewal_cents p = Some (price_cents p) \<longleftrightarrow> price_cents p = 0))
   \<and> (\<forall>v. map_of kvs ''renewal_price'' = Some v \<longrightarrow>
        (\<exists>rc. cents py v = Inr rc \<and> annual_renewal_cents p = Some rc))"
  by (auto simp: price_of_entry_def py_get_def cents_def new_DomainPrice_def post_init_def
           split: sum.splits)

theorem renewal_default_times_100_witness:
  "price_of_entry sample_cfg plain_py ''com'' [(''tld'', JStr ''com''), (''price'', JInt 9)]
     = Inr \<lparr>domain = ''.com'', tld = ''com'', price_cents = 900, currency = ''USD'',
            is_premium = False, is_bundled = False, is_recommended = True,
            annual_renewal_cents = Some 90000\<rparr>
   \<and> map_of [(''tld'', JStr ''com''), (''price'', JInt (9::int)) :: string \<times> unit json]
        ''renewal_price'' = None
   \<and> (90000::int) = 100 * 900"
proof -
  have e: "price_of_entry sample_cfg plain_py ''com''
      [(''tld'', JStr ''com''), (''price'', JInt 9)]
     = Inr \<lparr>domain = ''.com'', tld = ''com'', price_cents = 900, currency = ''USD'',
            is_premium = False, is_bundled = False, is_recommended = True,
            annual_renewal_cents = Some 90000\<rparr>"
    by (simp add: eval_simps)
  show ?thesis
    using e renewal_default_times_100 [OF e] by simp
qed

section \<open>Properties of batch_pricing\<close>

lemma split_dot_nonempty: "split_dot s \<noteq> []"
  by (induction s) (auto split: list.splits)

lemma get_tld_pricing_Inl:
  "get_tld_pricing cfg py net t st = (Inl e, st1) \<Longrightarrow> e = PricingError"
  using get_tld_pricing_only_PricingError [of cfg py net t st e] by simp

lemma get_tld_pricing_cache_other:
  "t' \<noteq> t \<Longrightarrow> price_cache (snd (get_tld_pricing cfg py net t st)) t' = price_cache st t'"
  by (cases "price_cache st t")
     (auto simp: get_tld_pricing_miss get_tld_pricing_hit split: sum.splits option.splits)

lemma get_tld_pricing_miss_count:
  "price_cache st t = None \<Longrightarrow>
   fetch_count (snd (get_tld_pricing cfg py net t st)) = Suc (fetch_count st)"
  by (auto simp: get_tld_pricing_miss split: sum.splits option.splits)

text \<open>
  One step of the loop: whatever \<open>get_tld_pricing\<close> does, the loop goes on with the
  rest of the TLDs, since the only exception it can meet is the one it catches.
\<close>

lemma fetch_tlds_step:
  "get_tld_pricing cfg py net t st = (r, st1) \<Longrightarrow>
   fetch_tlds cfg py net (t # ts) pr st =
     fetch_tlds cfg py net ts (case r of Inr (Some p) \<Rightarrow> pr(t \<mapsto> p) | _ \<Rightarrow> pr) st1"
  by (auto split: sum.splits option.splits dest: get_tld_pricing_Inl)



text \<open>
  One request for a TLD that is not cached: it is counted, and the TLDs still to come
  are still not cached.
\<close>

lemma fetch_step:
  assumes miss: "price_cache st t = None"
    and rest: "\<forall>u\<in>set ts. price_cache st u = None"
    and notin: "t \<notin> set ts"
    and g: "get_tld_pricing cfg py net t st = (r, st1)"
  shows "fetch_count st1 = Suc (fetch_count st)"
    and "\<forall>u\<in>set ts. price_cache st1 u = None"
proof -
  show "fetch_count st1 = Suc (fetch_count st)"
    using get_tld_pricing_miss_count [OF miss, of cfg py net] g by simp
  show "\<forall>u\<in>set ts. price_cache st1 u = None"
  proof
    fix u
    assume u: "u \<in> set ts"
    then have "u \<noteq> t" using notin by auto
    then have "price_cache st1 u = price_cache st u"
      using get_tld_pricing_cache_other [of u t cfg py net st] g by simp
    then show "price_cache st1 u = None" using rest u by simp
  qed
qed

lemma fetch_tlds_count:
  "distinct ts \<Longrightarrow> \<forall>t\<in>set ts. price_cache st t = None \<Longrightarrow>
   fetch_count (snd (fetch_tlds cfg py net ts pr st)) = fetch_count st + length ts"
proof (induction ts arbitrary: pr st)
  case Nil
  then show ?case by simp
next
  case (Cons t ts)
  obtain r st1 where g: "get_tld_pricing cfg py net t st = (r, st1)"
    by (cases "get_tld_pricing cfg py net t st")
  have miss: "price_cache st t = None" and rest0: "\<forall>u\<in>set ts. price_cache st u = None"
    and notin: "t \<notin> set ts" and d: "distinct ts"
    using Cons.prems by simp_all
  note step = fetch_step [OF miss rest0 notin g]
  show ?case
    unfolding fetch_tlds_step [OF g] using Cons.IH [OF d step(2)] step(1) by simp
qed




lemma map_back_apply:
  "map_back cfg py pr ds dp d =
     (if d \<in> set ds
      then (case pr (tld_of py d) of
              None \<Rightarrow> dp d
            | Some p \<Rightarrow> Some (price_for_domain cfg d p))
      else dp d)"
  by (induction ds arbitrary: dp) (auto split: option.splits)


text \<open>
  The dict that \<open>batch_pricing\<close> returns: a domain of the list has the price of its
  TLD, copied for the domain, when the first loop kept one; no other key exists.
\<close>

lemma batch_pricing_apply:
  "returned_dict (fst (batch_pricing cfg py net tlds ds st)) d =
     (if d \<in> set ds
      then map_option (price_for_domain cfg d)
             (returned_dict (fst (fetch_tlds cfg py net tlds Map.empty st)) (tld_of py d))
      else None)"
  by (simp add: batch_pricing_def returned_dict_def map_back_apply
           split: prod.splits sum.splits option.splits)

lemma batch_pricing_state:
  "snd (batch_pricing cfg py net tlds ds st) = snd (fetch_tlds cfg py net tlds Map.empty st)"
  by (simp add: batch_pricing_def split: prod.splits sum.splits)

lemma batch_pricing_domain:
  "returned_dict (fst (batch_pricing cfg py net tlds ds st)) d = Some p \<Longrightarrow>
   d \<in> set ds \<and> domain p = d"
  by (auto simp: batch_pricing_apply price_for_domain_def new_DomainPrice_def post_init_def
           split: if_splits)

text \<open>
  C3. Starting from an empty cache, \<open>batch_pricing\<close> on a list of domains issues as
  many requests as there are distinct lower-cased TLDs among the domains (lower-cased
  by the runtime's \<open>str.lower\<close>), whatever the order in which the set of TLDs is
  visited and whatever the requests answer.
\<close>

theorem batch_fetches_once_per_tld:
  assumes empty: "price_cache st = Map.empty"
    and order: "iteration_order py tlds domains"
  shows "fetch_count (snd (batch_pricing cfg py net tlds domains st)) =
           fetch_count st + card (set (map (tld_of py) domains))"
proof -
  have d: "distinct tlds" and s: "set tlds = set (map (tld_of py) domains)"
    using order by (simp_all add: iteration_order_def)
  have "\<forall>t\<in>set tlds. price_cache st t = None" using empty by simp
  then have "fetch_count (snd (fetch_tlds cfg py net tlds Map.empty st)) =
      fetch_count st + length tlds"
    using fetch_tlds_count [OF d] by blast
  moreover have "length tlds = card (set (map (tld_of py) domains))"
    using distinct_card [OF d] s by simp
  ultimately show ?thesis by (simp add: batch_pricing_state)
qed

text \<open>Five domains over the two TLDs \<open>com\<close> and \<open>io\<close>: two requests.\<close>

theorem batch_fetches_once_per_tld_witness:
  "price_cache fresh_client = Map.empty
   \<and> iteration_order plain_py [''io'', ''com'']
        [''a.com'', ''b.com'', ''c.io'', ''D.COM'', ''e.io'']
   \<and> fetch_count
        (snd (batch_pricing sample_cfg plain_py (\<lambda>k. Payload sample_catalog) [''io'', ''com'']
               [''a.com'', ''b.com'', ''c.io'', ''D.COM'', ''e.io''] fresh_client))
       = 2"
proof -
  have e: "price_cache fresh_client = Map.empty" by simp
  have t: "map (tld_of plain_py) [''a.com'', ''b.com'', ''c.io'', ''D.COM'', ''e.io'']
      = [''com'', ''com'', ''io'', ''com'', ''io'']"
    by (simp add: tld_of_def ascii_lower_char_def)
  have o: "iteration_order plain_py [''io'', ''com'']
      [''a.com'', ''b.com'', ''c.io'', ''D.COM'', ''e.io'']"
    unfolding iteration_order_def t by auto
  have "set [''com'', ''com'', ''io'', ''com'', ''io''] = {''com'', ''io''}" by auto
  then have c: "card (set [''com'', ''com'', ''io'', ''com'', ''io'']) = 2" by simp
  show ?thesis
    using e o c
      batch_fetches_once_per_tld
        [OF e o, of sample_cfg "\<lambda>k. Payload sample_catalog"]
    unfolding t by simp
qed

section \<open>Properties of check_multiple_domains\<close>

lemma check_domains_from_length: "length (check_domains_from lookup k ds) = length ds"
  by (induction ds arbitrary: k) simp_all

lemma check_domains_from_nth:
  "i < length ds \<Longrightarrow>
   check_domains_from lookup k ds ! i = check_domain (lookup (k + i) (ds ! i)) (ds ! i)"
proof (induction ds arbitrary: k i)
  case Nil
  then show ?case by simp
next
  case (Cons d ds)
  then show ?case by (cases i) simp_all
qed

lemma check_domain_fields:
  "result_domain (check_domain answer d) = d"
  "pricing_info (check_domain answer d) = None"
  by (simp_all add: check_domain_def split: lookup_outcome.splits)

lemma attach_fields:
  "result_domain (attach info r) = result_domain r"
  "status (attach info r) = status r"
  "(attach info r)\<lparr>pricing_info := None\<rparr> = r\<lparr>pricing_info := None\<rparr>"
  "pricing_info (attach info r) =
     (case info (result_domain r) of Some p \<Rightarrow> Some p | None \<Rightarrow> pricing_info r)"
  by (simp_all add: attach_def split: option.splits)

lemma attach_eq:
  "pricing_info r = None \<Longrightarrow> attach info r = r\<lparr>pricing_info := info (result_domain r)\<rparr>"
  by (cases "info (result_domain r)") (simp_all add: attach_def)

lemma batch_pricing_nil:
  "returned_dict (fst (batch_pricing cfg py net tlds [] st)) d = None"
  by (simp add: batch_pricing_apply)

lemma attach_empty: "attach Map.empty = (\<lambda>r. r)"
  by (rule ext) (simp add: attach_def)

text \<open>
  The results that lines 126 to 139 return: with pricing, every result passes through
  the attaching loop with the dict that \<open>batch_pricing\<close> returned; the loop changes
  nothing when no domain is available or when the \<open>except\<close> clause was taken.
\<close>

lemma price_results_eq:
  "fst (price_results cfg py net tlds results include_pricing st) =
     (if include_pricing
      then map (attach (returned_dict
                  (fst (batch_pricing cfg py net tlds (available_domains results) st))))
             results
      else results)"
proof -
  have "map (attach (returned_dict (fst (batch_pricing cfg py net tlds [] st)))) results
      = results"
    by (rule map_idI) (simp add: attach_def batch_pricing_nil)
  then show ?thesis
    by (auto simp: price_results_def returned_dict_def attach_empty
             split: prod.splits sum.splits)
qed

text \<open>
  C1. For every list of domains, the report of \<open>check_multiple_domains\<close> has one
  entry for each input domain, in input order: the i-th entry is the result of
  checking the i-th domain, and its pricing is the entry that the batch pricing holds
  under that domain (none without pricing, or when there is no such entry); a price
  in the i-th entry is a price for the i-th domain.
\<close>

theorem report_follows_input:
  "(let rs = fst (check_multiple_domains cfg py net lookup tlds domains include_pricing st);
        info = returned_dict
                 (fst (batch_pricing cfg py net tlds
                         (available_domains (check_domains lookup domains)) st))
    in length rs = length domains
     \<and> map result_domain rs = domains
     \<and> (\<forall>i<length domains.
           rs ! i = (check_domain (lookup i (domains ! i)) (domains ! i))
                      \<lparr>pricing_info := (if include_pricing then info (domains ! i) else None)\<rparr>)
     \<and> (\<forall>i<length domains. \<forall>p. pricing_info (rs ! i) = Some p \<longrightarrow> domain p = domains ! i))"
proof -
  define results where "results = check_domains lookup domains"
  define info where
    "info = returned_dict
              (fst (batch_pricing cfg py net tlds (available_domains results) st))"
  define rs where
    "rs = fst (check_multiple_domains cfg py net lookup tlds domains include_pricing st)"
  have len: "length results = length domains"
    by (simp add: results_def check_domains_def check_domains_from_length)
  have nth: "\<And>i. i < length domains \<Longrightarrow>
      results ! i = check_domain (lookup i (domains ! i)) (domains ! i)"
    by (simp add: results_def check_domains_def check_domains_from_nth)
  have rs: "rs = (if include_pricing then map (attach info) results else results)"
    by (simp add: rs_def info_def results_def check_multiple_domains_def price_results_eq)
  have l: "length rs = length domains" using rs len by simp
  have entry: "\<And>i. i < length domains \<Longrightarrow>
      rs ! i = (check_domain (lookup i (domains ! i)) (domains ! i))
                 \<lparr>pricing_info := (if include_pricing then info (domains ! i) else None)\<rparr>"
  proof -
    fix i
    assume i: "i < length domains"
    show "rs ! i = (check_domain (lookup i (domains ! i)) (domains ! i))
                 \<lparr>pricing_info := (if include_pricing then info (domains ! i) else None)\<rparr>"
    proof (cases include_pricing)
      case True
      then have "rs ! i = attach info (results ! i)" using rs i len by simp
      then show ?thesis
        using True nth [OF i] by (simp add: attach_eq check_domain_fields)
    next
      case False
      then have "rs ! i = results ! i" using rs by simp
      then show ?thesis
        using False nth [OF i] by (simp add: check_domain_def split: lookup_outcome.splits)
    qed
  qed
  have d: "map result_domain rs = domains"
    by (rule nth_equalityI) (simp_all add: l entry check_domain_fields)
  have p: "\<And>i p. i < length domains \<Longrightarrow> pricing_info (rs ! i) = Some p
      \<Longrightarrow> domain p = domains ! i"
    using entry batch_pricing_domain [of cfg py net tlds "available_domains results" st]
    by (auto simp: info_def split: if_splits)
  show ?thesis
    unfolding Let_def
    using l d entry p
    by (simp add: rs_def info_def results_def)
qed

text \<open>
  Two domains, the first available and the second registered: two entries, in input
  order, the first with a price for \<open>a.com\<close>.
\<close>

theorem report_follows_input_witness:
  "map result_domain
     (fst (check_multiple_domains sample_cfg plain_py (\<lambda>k. Payload sample_catalog)
             (\<lambda>k d. if k = 0 then NoRecord else Registration (Some ''R'') None None)
             [''com''] [''a.com'', ''b.io''] True fresh_client))
     = [''a.com'', ''b.io'']
   \<and> map status
     (fst (check_multiple_domains sample_cfg plain_py (\<lambda>k. Payload sample_catalog)
             (\<lambda>k d. if k = 0 then NoRecord else Registration (Some ''R'') None None)
             [''com''] [''a.com'', ''b.io''] True fresh_client))
     = [AVAILABLE, REGISTERED]
   \<and> map (map_option domain \<circ> pricing_info)
     (fst (check_multiple_domains sample_cfg plain_py (\<lambda>k. Payload sample_catalog)
             (\<lambda>k d. if k = 0 then NoRecord else Registration (Some ''R'') None None)
             [''com''] [''a.com'', ''b.io''] True fresh_client))
     = [Some ''a.com'', None]"
  using report_follows_input
    [where cfg = sample_cfg and py = plain_py and net = "\<lambda>k. Payload sample_catalog"
       and lookup = "\<lambda>k d. if k = 0 then NoRecord else Registration (Some ''R'') None None"
       and tlds = "[''com'']" and domains = "[''a.com'', ''b.io'']"
       and include_pricing = True and st = fresh_client]
  by (simp add: eval_simps batch_simps cli_simps)


lemma check_domains_no_pricing:
  "r \<in> set (check_domains lookup domains) \<Longrightarrow> pricing_info r = None"
proof -
  assume "r \<in> set (check_domains lookup domains)"
  then obtain k where "k < length domains"
    and "r = check_domain (lookup k (domains ! k)) (domains ! k)"
    by (auto simp: check_domains_def in_set_conv_nth check_domains_from_length
          check_domains_from_nth)
  then show "pricing_info r = None" by (simp add: check_domain_fields)
qed



text \<open>
  The keys of the batch pricing are domains of AVAILABLE results, so a result has a
  price only when its domain is the domain of some AVAILABLE result.
\<close>

lemma priced_domain_is_available:
  assumes "r \<in> set (fst (check_multiple_domains cfg py net lookup tlds domains inc st))"
    and "pricing_info r = Some p"
  shows "\<exists>a \<in> set (check_domains lookup domains).
           status a = AVAILABLE \<and> result_domain a = result_domain r"
proof -
  define results where "results = check_domains lookup domains"
  define info where
    "info = returned_dict
              (fst (batch_pricing cfg py net tlds (available_domains results) st))"
  have none: "\<And>x. x \<in> set results \<Longrightarrow> pricing_info x = None"
    unfolding results_def by (rule check_domains_no_pricing)
  have "inc" and "r \<in> set (map (attach info) results)"
    using assms none
    by (auto simp: check_multiple_domains_def price_results_eq results_def info_def
             split: if_splits)
  then obtain r0 where r0: "r0 \<in> set results" "r = attach info r0" by auto
  then have "info (result_domain r0) = Some p"
    using assms(2) none [OF r0(1)] by (simp add: attach_fields split: option.splits)
  then have "result_domain r0 \<in> set (available_domains results)"
    using batch_pricing_domain [of cfg py net tlds "available_domains results" st]
    by (simp add: info_def)
  then show ?thesis
    using r0 by (auto simp: available_domains_def results_def attach_fields)
qed

text \<open>
  C8 at the input \<open>a.com\<close>, \<open>a.com\<close>, where the first lookup finds no record and the
  second lookup fails: the report is an AVAILABLE entry and an UNKNOWN entry, and the
  attaching loop, which tests the domain and not the status, gives both the price.
\<close>

theorem attach_ignores_status:
  "map status
     (fst (check_multiple_domains sample_cfg plain_py (\<lambda>k. Payload sample_catalog)
             (\<lambda>k d. if k = 0 then NoRecord else LookupFailed ''timeout'')
             [''com''] [''a.com'', ''a.com''] True fresh_client))
     = [AVAILABLE, UNKNOWN]
   \<and> map (map_option price_cents \<circ> pricing_info)
     (fst (check_multiple_domains sample_cfg plain_py (\<lambda>k. Payload sample_catalog)
             (\<lambda>k d. if k = 0 then NoRecord else LookupFailed ''timeout'')
             [''com''] [''a.com'', ''a.com''] True fresh_client))
     = [Some 900, Some 900]"
  by (simp add: eval_simps batch_simps cli_simps)

text \<open>
  The sibling path \<open>check_single_domain\<close> on the same failed lookup asks for no price.
\<close>

lemma check_single_domain_unknown:
  "check_single_domain sample_cfg plain_py (\<lambda>k. Payload sample_catalog)
     (LookupFailed ''timeout'') ''a.com'' True fresh_client
   = (check_domain (LookupFailed ''timeout'') ''a.com'', fresh_client)"
  by (simp add: check_single_domain_def check_domain_def)

end
